theory Spec2Isabelle
  imports Complex_Main
begin

section \<open>Python values, dictionaries and objects\<close>

text \<open>
  The engine of \<^verbatim>\<open>backend/src/swarm/decision_engine.py\<close> handles plain Python data:
  tasks, persons and decisions are dictionaries with string keys. A dictionary is an
  association list in insertion order with one entry per key. A float literal stands for
  the decimal it is written as; the engine never computes with floats. \<open>PRef a\<close> is a
  reference to the list object at address \<open>a\<close> of the store below: it is used for the
  candidate pool, the one list the engine hands on by reference.
\<close>

datatype pyval =
    PNone
  | PBool bool
  | PInt int
  | PFloat real
  | PStr string
  | PList "pyval list"
  | PDict "(string \<times> pyval) list"
  | PRef nat

type_synonym pydict = "(string \<times> pyval) list"

text \<open>The attributes of an object, by name (its \<^verbatim>\<open>__dict__\<close>).\<close>

type_synonym pyobj = "(string \<times> pyval) list"

text \<open>
  A raised exception: whether it is an instance of \<^verbatim>\<open>Exception\<close> (what
  \<^verbatim>\<open>except Exception\<close> catches; \<^verbatim>\<open>KeyboardInterrupt\<close> and \<^verbatim>\<open>SystemExit\<close> are not),
  and \<^verbatim>\<open>str(e)\<close>.
\<close>

datatype pyexn = PyExn (is_Exception: bool) (exn_str: string)

text \<open>\<^verbatim>\<open>d.get(k, default)\<close>\<close>

definition dict_get :: "pydict \<Rightarrow> string \<Rightarrow> pyval \<Rightarrow> pyval" where
  "dict_get d k dflt = (case map_of d k of None \<Rightarrow> dflt | Some v \<Rightarrow> v)"

text \<open>\<^verbatim>\<open>d[k] = v\<close>: an existing key keeps its place and takes the new value, a new key goes last.\<close>

fun dict_set :: "pydict \<Rightarrow> string \<Rightarrow> pyval \<Rightarrow> pydict" where
  "dict_set [] k v = [(k, v)]"
| "dict_set ((k', v') # d) k v = (if k' = k then (k, v) # d else (k', v') # dict_set d k v)"

text \<open>\<^verbatim>\<open>d.update(other)\<close>: the entries of \<open>other\<close> are stored one after the other.\<close>

definition dict_update :: "pydict \<Rightarrow> pydict \<Rightarrow> pydict" where
  "dict_update d other = fold (\<lambda>(k, v) acc. dict_set acc k v) other d"

text \<open>\<^verbatim>\<open>hasattr(ob, k)\<close>, \<^verbatim>\<open>ob.k = v\<close>, \<^verbatim>\<open>getattr(ob, k, default)\<close>.\<close>

definition hasattr :: "pyobj \<Rightarrow> string \<Rightarrow> bool" where
  "hasattr ob k = (map_of ob k \<noteq> None)"

definition setattr :: "pyobj \<Rightarrow> string \<Rightarrow> pyval \<Rightarrow> pyobj" where
  "setattr ob k v = dict_set ob k v"

definition getattr_default :: "pyobj \<Rightarrow> string \<Rightarrow> pyval \<Rightarrow> pyval" where
  "getattr_default ob k dflt = (case map_of ob k of None \<Rightarrow> dflt | Some v \<Rightarrow> v)"

text \<open>
  \<^verbatim>\<open>ob.k\<close> on an object of class \<open>cls\<close>: the attribute, or \<^verbatim>\<open>AttributeError\<close> with Python's
  message.
\<close>

definition attribute_error :: "string \<Rightarrow> string \<Rightarrow> pyexn" where
  "attribute_error cls k =
     PyExn True ([CHR 0x27] @ cls @ [CHR 0x27] @ '' object has no attribute '' @ [CHR 0x27] @ k @ [CHR 0x27])"

definition getattr :: "string \<Rightarrow> pyobj \<Rightarrow> string \<Rightarrow> pyexn + pyval" where
  "getattr cls ob k = (case map_of ob k of None \<Rightarrow> Inl (attribute_error cls k) | Some v \<Rightarrow> Inr v)"

text \<open>\<^verbatim>\<open>type(v).__name__\<close>\<close>

fun type_name :: "pyval \<Rightarrow> string" where
  "type_name PNone = ''NoneType''"
| "type_name (PBool _) = ''bool''"
| "type_name (PInt _) = ''int''"
| "type_name (PFloat _) = ''float''"
| "type_name (PStr _) = ''str''"
| "type_name (PList _) = ''list''"
| "type_name (PDict _) = ''dict''"
| "type_name (PRef _) = ''list''"

section \<open>The store, and what the engine is run in\<close>

text \<open>
  The list objects whose identity matters live in a store, by address; \<open>next_addr\<close> is
  the next unused address. \<open>trace\<close> is a ghost record of the calls the engine makes on its
  collaborators, in order: \<open>Call m ob\<close> when method \<open>m\<close> is invoked on a receiver with
  attributes \<open>ob\<close>, then \<open>Returned m v\<close> or \<open>Raised m e\<close> as the call ends.
\<close>

datatype event = Call string pyobj | Returned string pyval | Raised string pyexn

record world =
  heap :: "nat \<Rightarrow> pyval list"
  next_addr :: nat
  trace :: "event list"

text \<open>A new list object: what evaluating a list display does.\<close>

definition new_list :: "pyval list \<Rightarrow> world \<Rightarrow> nat \<times> world" where
  "new_list xs w =
     (next_addr w, w\<lparr>heap := (heap w)(next_addr w := xs), next_addr := Suc (next_addr w)\<rparr>)"

text \<open>
  What the interpreter supplies.
  \<^item> \<open>clock\<close> is what \<^verbatim>\<open>datetime.now().isoformat()\<close> returns during the call.
  \<^item> \<open>str_of\<close> is what an f-string makes of a value that is not a string: its text, or the
    exception the conversion raises (CPython raises \<^verbatim>\<open>ValueError\<close> for an \<^verbatim>\<open>int\<close> with more
    digits than the interpreter's limit, 4300 unless changed). A string is rendered as
    itself.
  \<^item> \<open>console\<close> is \<open>None\<close> when \<^verbatim>\<open>sys.stdout\<close> takes what the engine prints, and otherwise
    the exception that \<^verbatim>\<open>print\<close> raises (\<^verbatim>\<open>UnicodeEncodeError\<close> on a stream whose encoding has
    no emoji, \<^verbatim>\<open>ValueError\<close> on a closed one). Every message of the engine carries an emoji,
    so a stream takes all of them or none; it is the same stream throughout a call.
\<close>

record runtime =
  clock :: string
  str_of :: "pyval \<Rightarrow> pyexn + string"
  console :: "pyexn option"

definition py_format :: "runtime \<Rightarrow> pyval \<Rightarrow> pyexn + string" where
  "py_format rt v = (case v of PStr s \<Rightarrow> Inr s | _ \<Rightarrow> str_of rt v)"

text \<open>\<^verbatim>\<open>print(message)\<close>: the exception it raises, if any.\<close>

definition py_print :: "runtime \<Rightarrow> pyexn option" where
  "py_print rt = console rt"

section \<open>The collaborators\<close>

text \<open>
  Modelled from the spec: the classes \<^verbatim>\<open>PriorityAgent\<close>, \<^verbatim>\<open>ResourceAgent\<close>, \<^verbatim>\<open>RiskAgent\<close> and
  \<^verbatim>\<open>Coordinator\<close> are imported from \<^verbatim>\<open>agents.*\<close>, which is not in the sources, so they are
  parameters of the model. A constructor returns the new object or raises. A method is
  a function of the list store (which it reads: the spec gives the collaborator calls as
  read-only over the task and as evaluating the pool), of the receiver's attributes and
  of its arguments; it returns or raises, and leaves the receiver with new attributes
  either way.
\<close>

type_synonym agent_method =
  "(nat \<Rightarrow> pyval list) \<Rightarrow> pyobj \<Rightarrow> pydict \<Rightarrow> (pyexn + pyval) \<times> pyobj"

record collaborators =
  PriorityAgent :: "pyval \<Rightarrow> pydict option \<Rightarrow> pyexn + pyobj"
  ResourceAgent :: "pyval \<Rightarrow> pydict option \<Rightarrow> pyexn + pyobj"
  RiskAgent :: "pyval \<Rightarrow> pydict option \<Rightarrow> pyexn + pyobj"
  Coordinator :: "pyexn + pyobj"
  analyze_priority :: agent_method
  find_suitable_resources :: agent_method
  assess_risks :: agent_method
  coordinate_decision ::
    "(nat \<Rightarrow> pyval list) \<Rightarrow> pyobj \<Rightarrow> pydict \<Rightarrow> pydict \<Rightarrow> (pyexn + pyval) \<times> pyobj"

section \<open>SwarmDecisionEngine\<close>

text \<open>
  The engine object. \<^verbatim>\<open>self.agents\<close> holds references to the three agent objects that
  are also the engine's attributes, so it is a list of roles and \<open>agent_of\<close> follows a
  reference.
\<close>

datatype role = Priority | Resource | Risk

record engine =
  name :: string
  version :: string
  neo4j_manager :: pyval
  config :: pydict
  priority_agent :: pyobj
  resource_agent :: pyobj
  risk_agent :: pyobj
  coordinator :: pyobj
  agents :: "role list"

fun agent_of :: "engine \<Rightarrow> role \<Rightarrow> pyobj" where
  "agent_of self Priority = priority_agent self"
| "agent_of self Resource = resource_agent self"
| "agent_of self Risk = risk_agent self"

fun class_name :: "role \<Rightarrow> string" where
  "class_name Priority = ''PriorityAgent''"
| "class_name Resource = ''ResourceAgent''"
| "class_name Risk = ''RiskAgent''"

text \<open>\<^verbatim>\<open>__init__\<close> (lines 12-38); \<^verbatim>\<open>config or {}\<close> is the empty dictionary for \<^verbatim>\<open>None\<close>.\<close>

definition init :: "collaborators \<Rightarrow> pyval \<Rightarrow> pydict option \<Rightarrow> pyexn + engine" where
  "init K neo4j cfg =
     (case PriorityAgent K neo4j cfg of Inl e \<Rightarrow> Inl e | Inr pa \<Rightarrow>
     (case ResourceAgent K neo4j cfg of Inl e \<Rightarrow> Inl e | Inr ra \<Rightarrow>
     (case RiskAgent K neo4j cfg of Inl e \<Rightarrow> Inl e | Inr ka \<Rightarrow>
     (case Coordinator K of Inl e \<Rightarrow> Inl e | Inr co \<Rightarrow>
        Inr \<lparr> name = ''Swarm Decision Engine'',
              version = ''1.0.0'',
              neo4j_manager = neo4j,
              config = (case cfg of None \<Rightarrow> [] | Some c \<Rightarrow> c),
              priority_agent = pa,
              resource_agent = ra,
              risk_agent = ka,
              coordinator = co,
              agents = [Priority, Resource, Risk] \<rparr>))))"

text \<open>
  \<^verbatim>\<open>_get_default_people\<close> (lines 111-154): the roster is a list display, so every call
  makes a new list object with these four persons.
\<close>

definition default_people :: "pyval list" where
  "default_people =
     [PDict [(''id'', PStr ''PERSON001''),
             (''name'', PStr ''Alice Chen''),
             (''email'', PStr ''alice@company.com''),
             (''skills'', PList [PStr ''Python'', PStr ''Flask'', PStr ''Database'', PStr ''Frontend'']),
             (''availability'', PFloat 0.8),
             (''current_workload'', PFloat 0.6),
             (''experience_level'', PStr ''senior''),
             (''department'', PStr ''Engineering'')],
      PDict [(''id'', PStr ''PERSON002''),
             (''name'', PStr ''Bob Wang''),
             (''email'', PStr ''bob@company.com''),
             (''skills'', PList [PStr ''Python'', PStr ''Neo4j'', PStr ''AI/ML'', PStr ''System Design'']),
             (''availability'', PFloat 0.9),
             (''current_workload'', PFloat 0.4),
             (''experience_level'', PStr ''senior''),
             (''department'', PStr ''Engineering'')],
      PDict [(''id'', PStr ''PERSON003''),
             (''name'', PStr ''Carol Liu''),
             (''email'', PStr ''carol@company.com''),
             (''skills'', PList [PStr ''Project Management'', PStr ''Requirements Analysis'',
                                 PStr ''Documentation'']),
             (''availability'', PFloat 0.7),
             (''current_workload'', PFloat 0.5),
             (''experience_level'', PStr ''mid''),
             (''department'', PStr ''Product'')],
      PDict [(''id'', PStr ''PERSON004''),
             (''name'', PStr ''David Zhang''),
             (''email'', PStr ''david@company.com''),
             (''skills'', PList [PStr ''System Design'', PStr ''Architecture'', PStr ''Performance'']),
             (''availability'', PFloat 0.6),
             (''current_workload'', PFloat 0.7),
             (''experience_level'', PStr ''senior''),
             (''department'', PStr ''Engineering'')]]"

definition get_default_people :: "world \<Rightarrow> nat \<times> world" where
  "get_default_people w = new_list default_people w"

text \<open>Lines 53-54: only \<^verbatim>\<open>people is None\<close> brings in the default roster.\<close>

definition resolve_pool :: "nat option \<Rightarrow> world \<Rightarrow> nat \<times> world" where
  "resolve_pool people w = (case people of None \<Rightarrow> get_default_people w | Some a \<Rightarrow> (a, w))"

text \<open>
  Lines 56-58: the resource agent's \<^verbatim>\<open>available_people\<close> is bound to the pool (the list
  object itself, by its address) when the agent has such an attribute.
\<close>

definition inject_pool :: "engine \<Rightarrow> nat \<Rightarrow> engine" where
  "inject_pool self pool =
     (if hasattr (resource_agent self) ''available_people''
      then self\<lparr>resource_agent := setattr (resource_agent self) ''available_people'' (PRef pool)\<rparr>
      else self)"

text \<open>
  A method call on a collaborator: the call is noted in the trace with the receiver as it
  is when the call is made, and with how the call ends.
\<close>

definition outcome :: "string \<Rightarrow> pyexn + pyval \<Rightarrow> event" where
  "outcome m r = (case r of Inl e \<Rightarrow> Raised m e | Inr v \<Rightarrow> Returned m v)"

definition call ::
  "string \<Rightarrow> (pyobj \<Rightarrow> (pyexn + pyval) \<times> pyobj) \<Rightarrow> pyobj \<Rightarrow> world \<Rightarrow>
   (pyexn + pyval) \<times> pyobj \<times> world" where
  "call m f ob w =
     (case f ob of (r, ob') \<Rightarrow> (r, ob', w\<lparr>trace := trace w @ [Call m ob, outcome m r]\<rparr>))"

text \<open>The events between two worlds: what a call that led from \<open>w\<close> to \<open>w'\<close> added.\<close>

definition events_since :: "world \<Rightarrow> world \<Rightarrow> event list" where
  "events_since w w' = drop (length (trace w)) (trace w')"

text \<open>Lines 85-91: the metadata the engine stores into the Coordinator's decision.\<close>

definition engine_metadata :: "engine \<Rightarrow> nat \<Rightarrow> pydict" where
  "engine_metadata self n =
     [(''swarm_engine'', PStr (name self)),
      (''engine_version'', PStr (version self)),
      (''decision_method'', PStr ''swarm_intelligence''),
      (''agents_involved'', PInt (int (length (agents self)))),
      (''people_considered'', PInt (int n))]"

definition attach_metadata :: "engine \<Rightarrow> nat \<Rightarrow> pydict \<Rightarrow> pydict" where
  "attach_metadata self n final_decision = dict_update final_decision (engine_metadata self n)"

text \<open>
  A \<^verbatim>\<open>print\<close> inside the \<^verbatim>\<open>try\<close>, and what follows it: when the \<^verbatim>\<open>print\<close> raises, the
  block ends there, with the engine and the world as they are.
\<close>

definition after_print ::
  "runtime \<Rightarrow> engine \<Rightarrow> world \<Rightarrow> (pyexn + 'a) \<times> engine \<times> world \<Rightarrow>
   (pyexn + 'a) \<times> engine \<times> world" where
  "after_print rt self w rest =
     (case py_print rt of Some e \<Rightarrow> (Inl e, self, w) | None \<Rightarrow> rest)"

text \<open>
  The body of the \<^verbatim>\<open>try\<close> (lines 52-95), statement by statement. Line 60 renders the
  task's \<^verbatim>\<open>id\<close> in an f-string and prints it; lines 66, 71, 76 and 81 print fixed
  messages. A rendering, a \<^verbatim>\<open>print\<close> or a collaborator that raises ends the block with its
  exception; so does \<^verbatim>\<open>final_decision.update\<close> when the Coordinator returned something
  that is not a dictionary.
\<close>

text \<open>
  Modelled from the spec: line 93 renders the \<^verbatim>\<open>confidence\<close> of the Coordinator's decision
  (or the text \<^verbatim>\<open>N/A\<close>) before it prints; the Coordinator is not in the sources, and the
  spec gives the confidence of its Decision as a real number, which an f-string always
  renders, so only the \<^verbatim>\<open>print\<close> of line 93 can raise here.
\<close>

definition try_block ::
  "collaborators \<Rightarrow> runtime \<Rightarrow> engine \<Rightarrow> world \<Rightarrow> pydict \<Rightarrow> nat option \<Rightarrow>
   (pyexn + pydict) \<times> engine \<times> world" where
  "try_block K rt self w task people =
     (case resolve_pool people w of (pool, w1) \<Rightarrow>
      (let self1 = inject_pool self pool in
       (case py_format rt (dict_get task ''id'' (PStr ''unknown'')) of
          Inl e \<Rightarrow> (Inl e, self1, w1)
        | Inr shown \<Rightarrow>
      after_print rt self1 w1
      (after_print rt self1 w1
       (case call ''analyze_priority'' (\<lambda>ob. analyze_priority K (heap w1) ob task)
               (priority_agent self1) w1 of
          (Inl e, pa, w2) \<Rightarrow> (Inl e, self1\<lparr>priority_agent := pa\<rparr>, w2)
        | (Inr priority_result, pa, w2) \<Rightarrow>
      (let self2 = self1\<lparr>priority_agent := pa\<rparr> in
       after_print rt self2 w2
       (case call ''find_suitable_resources'' (\<lambda>ob. find_suitable_resources K (heap w2) ob task)
               (resource_agent self2) w2 of
          (Inl e, ra, w3) \<Rightarrow> (Inl e, self2\<lparr>resource_agent := ra\<rparr>, w3)
        | (Inr resource_result, ra, w3) \<Rightarrow>
      (let self3 = self2\<lparr>resource_agent := ra\<rparr> in
       after_print rt self3 w3
       (case call ''assess_risks'' (\<lambda>ob. assess_risks K (heap w3) ob task)
               (risk_agent self3) w3 of
          (Inl e, ka, w4) \<Rightarrow> (Inl e, self3\<lparr>risk_agent := ka\<rparr>, w4)
        | (Inr risk_result, ka, w4) \<Rightarrow>
      (let self4 = self3\<lparr>risk_agent := ka\<rparr>;
           agent_results = [(''priority'', priority_result),
                            (''resources'', resource_result),
                            (''risks'', risk_result)] in
       after_print rt self4 w4
       (case call ''coordinate_decision''
               (\<lambda>ob. coordinate_decision K (heap w4) ob task agent_results)
               (coordinator self4) w4 of
          (Inl e, co, w5) \<Rightarrow> (Inl e, self4\<lparr>coordinator := co\<rparr>, w5)
        | (Inr final_decision, co, w5) \<Rightarrow>
      (let self5 = self4\<lparr>coordinator := co\<rparr> in
       (case final_decision of
          PDict d \<Rightarrow>
            after_print rt self5 w5
              (Inr (attach_metadata self5 (length (heap w5 pool)) d), self5, w5)
        | _ \<Rightarrow> (Inl (attribute_error (type_name final_decision) ''update''), self5, w5))))))))))))))"

text \<open>
  The two fixed texts of the fallback decision, by their UTF-8 bytes: the recommendation
  (the group decision failed, a manual assessment is advised) and the assignee (to be
  assigned).
\<close>

definition recommendation_failed :: string where
  "recommendation_failed =
     [CHR 0xE7, CHR 0xBE, CHR 0xA4, CHR 0xE9, CHR 0xAB, CHR 0x94, CHR 0xE6, CHR 0xB1, CHR 0xBA,
      CHR 0xE7, CHR 0xAD, CHR 0x96, CHR 0xE5, CHR 0xA4, CHR 0xB1, CHR 0xE6, CHR 0x95, CHR 0x97,
      CHR 0xEF, CHR 0xBC, CHR 0x8C, CHR 0xE5, CHR 0xBB, CHR 0xBA, CHR 0xE8, CHR 0xAD, CHR 0xB0,
      CHR 0xE4, CHR 0xBA, CHR 0xBA, CHR 0xE5, CHR 0xB7, CHR 0xA5, CHR 0xE8, CHR 0xA9, CHR 0x95,
      CHR 0xE4, CHR 0xBC, CHR 0xB0]"

definition to_be_assigned :: string where
  "to_be_assigned = [CHR 0xE5, CHR 0xBE, CHR 0x85, CHR 0xE5, CHR 0x88, CHR 0x86, CHR 0xE9, CHR 0x85, CHR 0x8D]"

text \<open>
  The dictionary of the \<^verbatim>\<open>except\<close> branch (lines 99-109); \<open>shown\<close> is the task's \<^verbatim>\<open>id\<close> as
  the f-string of line 100 renders it.
\<close>

definition error_decision :: "runtime \<Rightarrow> engine \<Rightarrow> pydict \<Rightarrow> string \<Rightarrow> pyexn \<Rightarrow> pydict" where
  "error_decision rt self task shown e =
     [(''decision_id'', PStr (''DEC_'' @ shown @ ''_ERROR'')),
      (''task_id'', dict_get task ''id'' (PStr ''unknown'')),
      (''recommendation'', PStr recommendation_failed),
      (''confidence'', PFloat 0.1),
      (''risk_level'', PStr ''high''),
      (''assigned_to'', PStr to_be_assigned),
      (''error'', PStr (exn_str e)),
      (''swarm_engine'', PStr (name self)),
      (''created_at'', PStr (clock rt))]"

text \<open>
  The \<^verbatim>\<open>except\<close> branch (lines 98-109). It stands outside every \<^verbatim>\<open>try\<close>: when its \<^verbatim>\<open>print\<close>
  (line 98) or the f-string of line 100 raises, that exception leaves the call.
\<close>

definition except_block :: "runtime \<Rightarrow> engine \<Rightarrow> pydict \<Rightarrow> pyexn \<Rightarrow> pyexn + pydict" where
  "except_block rt self task e =
     (case py_print rt of
        Some raised \<Rightarrow> Inl raised
      | None \<Rightarrow>
          (case py_format rt (dict_get task ''id'' (PStr ''unknown'')) of
             Inl raised \<Rightarrow> Inl raised
           | Inr shown \<Rightarrow> Inr (error_decision rt self task shown e)))"

text \<open>
  \<^verbatim>\<open>make_decision\<close> (lines 40-109): the result is the decision returned, or the exception
  that leaves the call; with it come the engine and the world as the call leaves them.
  \<open>people\<close> is \<open>None\<close> when the argument is omitted, and the address of the caller's
  list otherwise. \<^verbatim>\<open>except Exception\<close> handles the instances of \<^verbatim>\<open>Exception\<close> only.
\<close>

definition make_decision ::
  "collaborators \<Rightarrow> runtime \<Rightarrow> engine \<Rightarrow> world \<Rightarrow> pydict \<Rightarrow> nat option \<Rightarrow>
   (pyexn + pydict) \<times> engine \<times> world" where
  "make_decision K rt self w task people =
     (case try_block K rt self w task people of
        (Inr final_decision, self', w') \<Rightarrow> (Inr final_decision, self', w')
      | (Inl e, self', w') \<Rightarrow>
          (if is_Exception e then (except_block rt self' task e, self', w')
           else (Inl e, self', w')))"

text \<open>\<^verbatim>\<open>make_decision_with_custom_people\<close> (lines 177-188).\<close>

definition make_decision_with_custom_people ::
  "collaborators \<Rightarrow> runtime \<Rightarrow> engine \<Rightarrow> world \<Rightarrow> pydict \<Rightarrow> nat \<Rightarrow>
   (pyexn + pydict) \<times> engine \<times> world" where
  "make_decision_with_custom_people K rt self w task people =
     make_decision K rt self w task (Some people)"

text \<open>
  \<^verbatim>\<open>get_engine_status\<close> (lines 156-175). \<^verbatim>\<open>agent.name\<close> is a plain attribute access and
  raises when the attribute is missing; the version is read with a default.
\<close>

definition agent_status :: "string \<Rightarrow> pyobj \<Rightarrow> pyexn + pyval" where
  "agent_status cls ob =
     (case getattr cls ob ''name'' of
        Inl e \<Rightarrow> Inl e
      | Inr n \<Rightarrow> Inr (PDict [(''name'', n),
                            (''version'', getattr_default ob ''version'' (PStr ''unknown'')),
                            (''status'', PStr ''active'')]))"

fun agents_status :: "engine \<Rightarrow> role list \<Rightarrow> pyexn + pyval list" where
  "agents_status self [] = Inr []"
| "agents_status self (r # rs) =
     (case agent_status (class_name r) (agent_of self r) of
        Inl e \<Rightarrow> Inl e
      | Inr st \<Rightarrow> (case agents_status self rs of Inl e \<Rightarrow> Inl e | Inr sts \<Rightarrow> Inr (st # sts)))"

definition get_engine_status :: "engine \<Rightarrow> pyexn + pydict" where
  "get_engine_status self =
     (case agents_status self (agents self) of
        Inl e \<Rightarrow> Inl e
      | Inr sts \<Rightarrow>
          (case agent_status ''Coordinator'' (coordinator self) of
             Inl e \<Rightarrow> Inl e
           | Inr cst \<Rightarrow>
               Inr [(''name'', PStr (name self)),
                    (''version'', PStr (version self)),
                    (''agents_count'', PInt (int (length (agents self)))),
                    (''agents_status'', PList sts),
                    (''coordinator_status'', cst)]))"

section \<open>A concrete engine\<close>

text \<open>
  Collaborators to run the engine on. The priority agent returns a fixed opinion. The
  resource agent counts the persons of the list its \<^verbatim>\<open>available_people\<close> refers to. The
  risk agent raises the exception it is given, if any. The Coordinator returns a decision
  for the task with the entries \<open>extra\<close> after its own.
\<close>

definition sample_agent :: "string \<Rightarrow> pyobj" where
  "sample_agent n = [(''name'', PStr n), (''version'', PStr ''1.0.0'')]"

definition sample_resource_agent :: pyobj where
  "sample_resource_agent =
     [(''name'', PStr ''Resource Agent''), (''version'', PStr ''1.0.0''),
      (''available_people'', PList [])]"

definition sample_coordinator :: pyobj where
  "sample_coordinator = [(''name'', PStr ''Coordinator'')]"

definition sample_collaborators :: "pyexn option \<Rightarrow> pydict \<Rightarrow> collaborators" where
  "sample_collaborators failure extra =
     \<lparr> PriorityAgent = (\<lambda>neo4j cfg. Inr (sample_agent ''Priority Agent'')),
       ResourceAgent = (\<lambda>neo4j cfg. Inr sample_resource_agent),
       RiskAgent = (\<lambda>neo4j cfg. Inr (sample_agent ''Risk Agent'')),
       Coordinator = Inr sample_coordinator,
       analyze_priority = (\<lambda>h ob task. (Inr (PDict [(''priority_level'', PStr ''high'')]), ob)),
       find_suitable_resources =
         (\<lambda>h ob task.
            (Inr (PDict [(''candidates'',
                          PInt (int (length (case map_of ob ''available_people'' of
                                               Some (PRef a) \<Rightarrow> h a
                                             | _ \<Rightarrow> []))))]),
             ob)),
       assess_risks =
         (\<lambda>h ob task.
            (case failure of
               Some e \<Rightarrow> (Inl e, ob)
             | None \<Rightarrow> (Inr (PDict [(''risk_level'', PStr ''low'')]), ob))),
       coordinate_decision =
         (\<lambda>h ob task agent_results.
            (Inr (PDict ([(''task_id'', dict_get task ''id'' (PStr ''unknown'')),
                          (''confidence'', PFloat 0.9),
                          (''resources'', dict_get agent_results ''resources'' PNone)] @ extra)),
             ob)) \<rparr>"

definition sample_engine :: engine where
  "sample_engine =
     \<lparr> name = ''Swarm Decision Engine'',
       version = ''1.0.0'',
       neo4j_manager = PNone,
       config = [],
       priority_agent = sample_agent ''Priority Agent'',
       resource_agent = sample_resource_agent,
       risk_agent = sample_agent ''Risk Agent'',
       coordinator = sample_coordinator,
       agents = [Priority, Resource, Risk] \<rparr>"

text \<open>
  An interpreter with the digit limit of 4300 and a console that takes the messages. The
  text it gives for a value that is not a string is a placeholder; that an \<^verbatim>\<open>int\<close> of more
  than 4300 digits raises is CPython's.
\<close>

definition sample_str_of :: "pyval \<Rightarrow> pyexn + string" where
  "sample_str_of v =
     (case v of
        PInt n \<Rightarrow>
          (if 10 ^ 4300 \<le> \<bar>n\<bar>
           then Inl (PyExn True ''Exceeds the limit (4300 digits) for integer string conversion'')
           else Inr ''?'')
      | _ \<Rightarrow> Inr ''?'')"

definition sample_runtime :: runtime where
  "sample_runtime =
     \<lparr> clock = ''2024-05-01T12:00:00'', str_of = sample_str_of, console = None \<rparr>"


text \<open>A world with one list object, at address 0.\<close>

definition sample_world :: "pyval list \<Rightarrow> world" where
  "sample_world xs = \<lparr> heap = (\<lambda>a. [])(0 := xs), next_addr = 1, trace = [] \<rparr>"

text \<open>The engine above run on these collaborators, from a world whose one list is empty.\<close>

definition sample_run ::
  "pyexn option \<Rightarrow> pydict \<Rightarrow> pydict \<Rightarrow> nat option \<Rightarrow> (pyexn + pydict) \<times> engine \<times> world" where
  "sample_run failure extra task people =
     make_decision (sample_collaborators failure extra) sample_runtime sample_engine
       (sample_world []) task people"

section \<open>What the claims speak of\<close>



text \<open>
  A status entry for a collaborator: its name, the value of its \<^verbatim>\<open>version\<close> attribute
  (whatever that holds) or the sentinel \<^verbatim>\<open>unknown\<close> when it has no such attribute, and
  the liveness marker.
\<close>

definition status_entry_of :: "pyobj \<Rightarrow> pyval \<Rightarrow> bool" where
  "status_entry_of ob st =
     (case st of
        PDict d \<Rightarrow>
          map_of ob ''name'' \<noteq> None \<and>
          map_of d ''name'' = map_of ob ''name'' \<and>
          map_of d ''version'' =
            Some (case map_of ob ''version'' of None \<Rightarrow> PStr ''unknown'' | Some v \<Rightarrow> v) \<and>
          map_of d ''status'' = Some (PStr ''active'')
      | _ \<Rightarrow> False)"

section \<open>Dictionaries, calls and the body of the try\<close>

lemmas engine_defs =
  make_decision_def try_block_def except_block_def after_print_def py_print_def
  resolve_pool_def get_default_people_def new_list_def
  inject_pool_def hasattr_def setattr_def call_def outcome_def events_since_def
  attach_metadata_def engine_metadata_def dict_update_def dict_get_def error_decision_def
  py_format_def attribute_error_def

lemmas sample_defs =
  sample_run_def sample_collaborators_def sample_engine_def sample_runtime_def
  sample_world_def sample_agent_def sample_resource_agent_def sample_coordinator_def

lemma map_of_dict_set: "map_of (dict_set d k v) = (map_of d)(k \<mapsto> v)"
  by (induction d k v rule: dict_set.induct) (auto simp: fun_eq_iff)


lemma resolve_pool_trace: "trace (snd (resolve_pool people w)) = trace w"
  by (auto simp: resolve_pool_def get_default_people_def new_list_def split: option.splits)

lemma resolve_pool_list:
  "heap (snd (resolve_pool people w)) (fst (resolve_pool people w)) =
     (case people of None \<Rightarrow> default_people | Some a \<Rightarrow> heap w a)"
  by (simp add: resolve_pool_def get_default_people_def new_list_def split: option.splits)

lemma inject_pool_frame:
  "name (inject_pool self pool) = name self"
  "version (inject_pool self pool) = version self"
  "agents (inject_pool self pool) = agents self"
  "priority_agent (inject_pool self pool) = priority_agent self"
  "risk_agent (inject_pool self pool) = risk_agent self"
  "coordinator (inject_pool self pool) = coordinator self"
  by (simp_all add: inject_pool_def)

lemma after_print_taken: "console rt = None \<Longrightarrow> after_print rt self w rest = rest"
  by (simp add: after_print_def py_print_def)

text \<open>
  The statements of the block after line 60, for a console that takes the messages: the
  four calls, one after the other.
\<close>

lemma try_block_started:
  assumes "py_format rt (dict_get task ''id'' (PStr ''unknown'')) = Inr shown"
    and "console rt = None"
  shows "try_block K rt self w task people =
     (case resolve_pool people w of (pool, w1) \<Rightarrow>
      (let self1 = inject_pool self pool in
       (case call ''analyze_priority'' (\<lambda>ob. analyze_priority K (heap w1) ob task)
               (priority_agent self1) w1 of
          (Inl e, pa, w2) \<Rightarrow> (Inl e, self1\<lparr>priority_agent := pa\<rparr>, w2)
        | (Inr priority_result, pa, w2) \<Rightarrow>
      (let self2 = self1\<lparr>priority_agent := pa\<rparr> in
       (case call ''find_suitable_resources'' (\<lambda>ob. find_suitable_resources K (heap w2) ob task)
               (resource_agent self2) w2 of
          (Inl e, ra, w3) \<Rightarrow> (Inl e, self2\<lparr>resource_agent := ra\<rparr>, w3)
        | (Inr resource_result, ra, w3) \<Rightarrow>
      (let self3 = self2\<lparr>resource_agent := ra\<rparr> in
       (case call ''assess_risks'' (\<lambda>ob. assess_risks K (heap w3) ob task)
               (risk_agent self3) w3 of
          (Inl e, ka, w4) \<Rightarrow> (Inl e, self3\<lparr>risk_agent := ka\<rparr>, w4)
        | (Inr risk_result, ka, w4) \<Rightarrow>
      (let self4 = self3\<lparr>risk_agent := ka\<rparr>;
           agent_results = [(''priority'', priority_result),
                            (''resources'', resource_result),
                            (''risks'', risk_result)] in
       (case call ''coordinate_decision''
               (\<lambda>ob. coordinate_decision K (heap w4) ob task agent_results)
               (coordinator self4) w4 of
          (Inl e, co, w5) \<Rightarrow> (Inl e, self4\<lparr>coordinator := co\<rparr>, w5)
        | (Inr final_decision, co, w5) \<Rightarrow>
      (let self5 = self4\<lparr>coordinator := co\<rparr> in
       (case final_decision of
          PDict d \<Rightarrow> (Inr (attach_metadata self5 (length (heap w5 pool)) d), self5, w5)
        | _ \<Rightarrow> (Inl (attribute_error (type_name final_decision) ''update''), self5, w5))))))))))))"
  unfolding try_block_def after_print_taken[OF assms(2)] assms(1) by simp

text \<open>
  When line 60 raises, in the f-string or in the \<^verbatim>\<open>print\<close>, the block ends before any
  collaborator is called.
\<close>

lemma try_block_not_started:
  assumes "try_block K rt self w task people = (r, self', w')"
    and "(\<exists>e. py_format rt (dict_get task ''id'' (PStr ''unknown'')) = Inl e) \<or> console rt \<noteq> None"
  shows "events_since w w' = []"
    and "\<exists>e. r = Inl e \<and> (py_format rt (dict_get task ''id'' (PStr ''unknown'')) = Inl e \<or>
                           console rt = Some e)"
    and "self' = inject_pool self (fst (resolve_pool people w))"
    and "w' = snd (resolve_pool people w)"
  using assms resolve_pool_trace[of people w]
  by (auto simp: try_block_def after_print_def py_print_def events_since_def Let_def
           split: prod.splits sum.splits option.splits)

lemma try_block_events_started:
  assumes run: "try_block K rt self w task people = (r, self', w')"
    and ev: "events_since w w' \<noteq> []"
  shows "console rt = None \<and> (\<exists>shown. py_format rt (dict_get task ''id'' (PStr ''unknown'')) = Inr shown)"
proof (rule ccontr)
  assume "\<not> ?thesis"
  then have "(\<exists>e. py_format rt (dict_get task ''id'' (PStr ''unknown'')) = Inl e) \<or> console rt \<noteq> None"
    by (cases "py_format rt (dict_get task ''id'' (PStr ''unknown''))") auto
  from try_block_not_started(1)[OF run this] ev show False by simp
qed

text \<open>
  The collaborators leave the store alone, and the engine changes it only by making the
  default roster; the engine's own name, version and agent list stay as they are.
\<close>

lemma try_block_store:
  assumes "try_block K rt self w task people = (r, self', w')"
  shows "heap w' = heap (snd (resolve_pool people w))"
    and "next_addr w' = next_addr (snd (resolve_pool people w))"
  using assms unfolding try_block_def call_def after_print_def py_print_def
  by (auto simp: Let_def split: prod.splits sum.splits pyval.splits option.splits)

lemma try_block_engine:
  assumes "try_block K rt self w task people = (r, self', w')"
  shows "name self' = name self" and "version self' = version self"
    and "agents self' = agents self"
  using assms unfolding try_block_def call_def after_print_def py_print_def
  by (auto simp: Let_def inject_pool_frame split: prod.splits sum.splits pyval.splits option.splits)



text \<open>The receiver of \<^verbatim>\<open>find_suitable_resources\<close> is the resource agent as line 58 left it.\<close>

lemma try_block_resource_receiver:
  assumes run: "try_block K rt self w task people = (r, self', w')"
    and ev: "Call ''find_suitable_resources'' ob \<in> set (events_since w w')"
  shows "ob = resource_agent (inject_pool self (fst (resolve_pool people w)))"
proof -
  from ev have "events_since w w' \<noteq> []" by auto
  from try_block_events_started[OF run this] obtain shown where
    "console rt = None" "py_format rt (dict_get task ''id'' (PStr ''unknown'')) = Inr shown"
    by blast
  from run[unfolded try_block_started[OF this(2,1)]] ev resolve_pool_trace[of people w]
  show ?thesis
    unfolding call_def events_since_def outcome_def
    by (auto simp: Let_def split: prod.splits sum.splits pyval.splits)
qed

text \<open>
  The trace of a cycle is what the collaborators do: each call is there with its
  receiver and with what it returned or raised, and no call follows one that raised.
\<close>

lemma trace_of_cycle:
  assumes run: "try_block K rt self w task people = (r, self', w')"
    and shown: "py_format rt (dict_get task ''id'' (PStr ''unknown'')) = Inr shown"
    and console: "console rt = None"
    and pool: "resolve_pool people w = (pool, w1)"
    and p: "p = analyze_priority K (heap w1) (priority_agent self) task"
    and f: "f = find_suitable_resources K (heap w1) (resource_agent (inject_pool self pool)) task"
    and k: "k = assess_risks K (heap w1) (risk_agent self) task"
    and c: "c = coordinate_decision K (heap w1) (coordinator self) task
                  [(''priority'', projr (fst p)), (''resources'', projr (fst f)),
                   (''risks'', projr (fst k))]"
  shows "events_since w w' =
           (if isl (fst p) then [Call ''analyze_priority'' (priority_agent self),
                                 Raised ''analyze_priority'' (projl (fst p))]
            else [Call ''analyze_priority'' (priority_agent self),
                  Returned ''analyze_priority'' (projr (fst p))] @
           (if isl (fst f) then [Call ''find_suitable_resources'' (resource_agent (inject_pool self pool)),
                                 Raised ''find_suitable_resources'' (projl (fst f))]
            else [Call ''find_suitable_resources'' (resource_agent (inject_pool self pool)),
                  Returned ''find_suitable_resources'' (projr (fst f))] @
           (if isl (fst k) then [Call ''assess_risks'' (risk_agent self),
                                 Raised ''assess_risks'' (projl (fst k))]
            else [Call ''assess_risks'' (risk_agent self),
                  Returned ''assess_risks'' (projr (fst k)),
                  Call ''coordinate_decision'' (coordinator self),
                  outcome ''coordinate_decision'' (fst c)])))"
proof -
  have t: "trace w1 = trace w" using resolve_pool_trace[of people w] pool by simp
  obtain rp pa where P: "p = (rp, pa)" by (cases p)
  obtain rf fa where F: "f = (rf, fa)" by (cases f)
  obtain rk ka where R: "k = (rk, ka)" by (cases k)
  obtain rc ca where C: "c = (rc, ca)" by (cases c)
  note calls = P[unfolded p] F[unfolded f] R[unfolded k] C[unfolded c p f k]
  show ?thesis
    using run[unfolded try_block_started[OF shown console]] t calls unfolding P F R C
    by (cases rp; cases rf; cases rk; cases rc)
       (auto simp: call_def events_since_def outcome_def pool Let_def
          inject_pool_frame P F R split: pyval.splits)
qed

section \<open>make_decision\<close>

lemma make_decision_try_block:
  assumes "make_decision K rt self w task people = (r, self', w')"
  shows "\<exists>r0. try_block K rt self w task people = (r0, self', w') \<and>
              r = (case r0 of
                     Inr d \<Rightarrow> Inr d
                   | Inl e \<Rightarrow> if is_Exception e then except_block rt self' task e else Inl e)"
  using assms unfolding make_decision_def
  by (auto split: prod.splits sum.splits if_splits)



lemma make_decision_frame:
  assumes "make_decision K rt self w task people = (r, self', w')"
  shows "name self' = name self" and "version self' = version self"
    and "agents self' = agents self"
    and "heap w' = heap (snd (resolve_pool people w))"
    and "next_addr w' = next_addr (snd (resolve_pool people w))"
proof -
  obtain r0 where tb: "try_block K rt self w task people = (r0, self', w')"
    using make_decision_try_block[OF assms] by blast
  show "name self' = name self" "version self' = version self" "agents self' = agents self"
    using try_block_engine[OF tb] by simp_all
  show "heap w' = heap (snd (resolve_pool people w))"
    "next_addr w' = next_addr (snd (resolve_pool people w))"
    using try_block_store[OF tb] by simp_all
qed



text \<open>What \<^verbatim>\<open>__init__\<close> leaves: the engine's name and version, and its three agents.\<close>

lemma init_engine:
  assumes "init K neo4j cfg = Inr self"
  shows "name self = ''Swarm Decision Engine''" and "version self = ''1.0.0''"
    and "agents self = [Priority, Resource, Risk]"
  using assms by (auto simp: init_def split: sum.splits)




section \<open>The degraded path\<close>







section \<open>The engine's metadata\<close>







section \<open>The candidate pool\<close>

text \<open>
  Claim C5. A call of \<^verbatim>\<open>make_decision\<close> without \<open>people\<close> and a call with the default
  roster as \<open>people\<close> are the same: with the roster made as \<^verbatim>\<open>_get_default_people\<close>
  makes it, both return the same decision and leave the same engine and the same world
  (the calls made on the collaborators among it), and the pool of both is the default
  roster.
\<close>

theorem omitted_people_is_default_roster:
  assumes "get_default_people w = (a, w1)"
  shows "make_decision K rt self w task None = make_decision K rt self w1 task (Some a) \<and>
         heap w1 a = default_people"
  using assms
  by (auto simp: make_decision_def try_block_def resolve_pool_def get_default_people_def new_list_def)

text \<open>The two calls for the task \<open>T1\<close>; the roster is the list object at address 1.\<close>

theorem omitted_people_is_default_roster_witness:
  "get_default_people (sample_world []) =
     (1, \<lparr>heap = (\<lambda>a. [])(0 := [], 1 := default_people), next_addr = 2, trace = []\<rparr>) \<and>
   make_decision (sample_collaborators None []) sample_runtime sample_engine (sample_world [])
       [(''id'', PStr ''T1'')] None =
     make_decision (sample_collaborators None []) sample_runtime sample_engine
       \<lparr>heap = (\<lambda>a. [])(0 := [], 1 := default_people), next_addr = 2, trace = []\<rparr>
       [(''id'', PStr ''T1'')] (Some 1)"
proof -
  have alloc: "get_default_people (sample_world []) =
     (1, \<lparr>heap = (\<lambda>a. [])(0 := [], 1 := default_people), next_addr = 2, trace = []\<rparr>)"
    by (simp add: get_default_people_def new_list_def sample_world_def)
  from omitted_people_is_default_roster[OF alloc] alloc show ?thesis by simp
qed



text \<open>
  Claim C7. \<^verbatim>\<open>make_decision_with_custom_people(task, people)\<close> returns what
  \<^verbatim>\<open>make_decision(task, people)\<close> returns, for every task and every list \<open>people\<close>, and
  leaves the same engine and world.
\<close>

theorem custom_people_alias:
  "make_decision_with_custom_people K rt self w task people =
     make_decision K rt self w task (Some people)"
  by (simp add: make_decision_with_custom_people_def)

text \<open>
  Claim C8, as amended. In a decision cycle whose resource agent has the attribute
  \<^verbatim>\<open>available_people\<close>, the engine binds that attribute to the pool of the cycle before it
  invokes \<^verbatim>\<open>find_suitable_resources\<close>: the receiver of that call is the resource agent as
  the cycle found it with \<^verbatim>\<open>available_people\<close> referring to the pool. The reference is to
  the list object itself: for a caller's list it is the caller's address, and the call
  makes no new list and leaves every list as it was; without \<open>people\<close> it is the address
  of the new default roster. When the resource agent has no such attribute the engine
  binds nothing: the receiver is the resource agent as the cycle found it, without the
  attribute.
\<close>

theorem pool_bound_before_resource_call:
  assumes run: "make_decision K rt self w task people = (r, self', w')"
    and invoked: "Call ''find_suitable_resources'' ob \<in> set (events_since w w')"
    and pool: "pool = fst (resolve_pool people w)"
  shows "ob = (if hasattr (resource_agent self) ''available_people''
               then setattr (resource_agent self) ''available_people'' (PRef pool)
               else resource_agent self) \<and>
         map_of ob ''available_people'' =
           (if hasattr (resource_agent self) ''available_people'' then Some (PRef pool) else None) \<and>
         heap w' pool = (case people of None \<Rightarrow> default_people | Some a \<Rightarrow> heap w a) \<and>
         (case people of
            Some a \<Rightarrow> pool = a \<and> heap w' = heap w \<and> next_addr w' = next_addr w
          | None \<Rightarrow> pool = next_addr w \<and> next_addr w' = Suc (next_addr w))"
proof -
  obtain r0 where tb: "try_block K rt self w task people = (r0, self', w')"
    using make_decision_try_block[OF run] by blast
  have "ob = resource_agent (inject_pool self pool)"
    using try_block_resource_receiver[OF tb invoked] pool by simp
  then have ob: "ob = (if hasattr (resource_agent self) ''available_people''
               then setattr (resource_agent self) ''available_people'' (PRef pool)
               else resource_agent self)"
    by (simp add: inject_pool_def)
  then have "map_of ob ''available_people'' =
           (if hasattr (resource_agent self) ''available_people'' then Some (PRef pool) else None)"
    by (simp add: setattr_def map_of_dict_set hasattr_def)
  moreover have "heap w' pool = (case people of None \<Rightarrow> default_people | Some a \<Rightarrow> heap w a)"
    using make_decision_frame(4)[OF run] resolve_pool_list[of people w] pool by simp
  moreover have "case people of
            Some a \<Rightarrow> pool = a \<and> heap w' = heap w \<and> next_addr w' = next_addr w
          | None \<Rightarrow> pool = next_addr w \<and> next_addr w' = Suc (next_addr w)"
    using make_decision_frame(4,5)[OF run] pool
    by (simp add: resolve_pool_def get_default_people_def new_list_def split: option.splits)
  ultimately show ?thesis using ob by simp
qed

text \<open>A caller's list of one person, at address 0.\<close>

theorem pool_bound_before_resource_call_witness:
  "Call ''find_suitable_resources''
      [(''name'', PStr ''Resource Agent''), (''version'', PStr ''1.0.0''),
       (''available_people'', PRef 0)]
     \<in> set (events_since (sample_world [PDict [(''id'', PStr ''P9'')]])
          (snd (snd (make_decision (sample_collaborators None []) sample_runtime sample_engine
                       (sample_world [PDict [(''id'', PStr ''P9'')]]) [(''id'', PStr ''T1'')] (Some 0))))) \<and>
   0 = fst (resolve_pool (Some 0) (sample_world [PDict [(''id'', PStr ''P9'')]])) \<and>
   hasattr (resource_agent sample_engine) ''available_people'' \<and>
   [(''name'', PStr ''Resource Agent''), (''version'', PStr ''1.0.0''), (''available_people'', PRef 0)] =
     setattr (resource_agent sample_engine) ''available_people'' (PRef 0) \<and>
   heap (snd (snd (make_decision (sample_collaborators None []) sample_runtime sample_engine
                       (sample_world [PDict [(''id'', PStr ''P9'')]]) [(''id'', PStr ''T1'')] (Some 0)))) 0 =
     [PDict [(''id'', PStr ''P9'')]] \<and>
   next_addr (snd (snd (make_decision (sample_collaborators None []) sample_runtime sample_engine
                       (sample_world [PDict [(''id'', PStr ''P9'')]]) [(''id'', PStr ''T1'')] (Some 0)))) = 1"
proof -
  let ?w = "sample_world [PDict [(''id'', PStr ''P9'')]]"
  let ?run = "make_decision (sample_collaborators None []) sample_runtime sample_engine ?w
                [(''id'', PStr ''T1'')] (Some 0)"
  let ?ob = "[(''name'', PStr ''Resource Agent''), (''version'', PStr ''1.0.0''),
              (''available_people'', PRef 0)]"
  have run: "?run = (fst ?run, fst (snd ?run), snd (snd ?run))" by simp
  have attr: "hasattr (resource_agent sample_engine) ''available_people''"
    by (simp add: hasattr_def sample_defs)
  have ev: "Call ''find_suitable_resources'' ?ob \<in> set (events_since ?w (snd (snd ?run)))"
    by (simp add: engine_defs sample_defs)
  have pool: "0 = fst (resolve_pool (Some 0) ?w)" by (simp add: resolve_pool_def)
  from pool_bound_before_resource_call[OF run ev pool] attr ev pool
  show ?thesis by (simp add: sample_world_def)
qed

text \<open>
  The claim as it was stated has the engine write the pool in every cycle. The write is
  under \<^verbatim>\<open>hasattr\<close> (line 57): here the resource agent has a name and a version and no
  \<^verbatim>\<open>available_people\<close>. \<^verbatim>\<open>find_suitable_resources\<close> is invoked on the agent as it was, it
  finds no candidate although the default roster has four, and the agent is left without
  the attribute.
\<close>

theorem pool_not_bound_without_attribute:
  "\<not> hasattr (sample_agent ''Resource Agent'') ''available_people'' \<and>
   trace (snd (snd (make_decision (sample_collaborators None []) sample_runtime
                      (sample_engine\<lparr>resource_agent := sample_agent ''Resource Agent''\<rparr>)
                      (sample_world []) [(''id'', PStr ''T1'')] None))) =
     [Call ''analyze_priority'' (sample_agent ''Priority Agent''),
      Returned ''analyze_priority'' (PDict [(''priority_level'', PStr ''high'')]),
      Call ''find_suitable_resources'' (sample_agent ''Resource Agent''),
      Returned ''find_suitable_resources'' (PDict [(''candidates'', PInt 0)]),
      Call ''assess_risks'' (sample_agent ''Risk Agent''),
      Returned ''assess_risks'' (PDict [(''risk_level'', PStr ''low'')]),
      Call ''coordinate_decision'' sample_coordinator,
      Returned ''coordinate_decision''
        (PDict [(''task_id'', PStr ''T1''), (''confidence'', PFloat 0.9),
                (''resources'', PDict [(''candidates'', PInt 0)])])] \<and>
   resource_agent (fst (snd (make_decision (sample_collaborators None []) sample_runtime
                      (sample_engine\<lparr>resource_agent := sample_agent ''Resource Agent''\<rparr>)
                      (sample_world []) [(''id'', PStr ''T1'')] None))) =
     sample_agent ''Resource Agent''"
  by (simp add: engine_defs sample_defs)



section \<open>get_engine_status\<close>

lemma agents_status_entries:
  assumes "list_all (\<lambda>r. hasattr (agent_of self r) ''name'') rs"
  shows "\<exists>sts. agents_status self rs = Inr sts \<and>
               list_all2 status_entry_of (map (agent_of self) rs) sts"
  using assms
proof (induction rs)
  case Nil
  then show ?case by simp
next
  case (Cons r rs)
  then obtain sts where sts: "agents_status self rs = Inr sts"
    and all: "list_all2 status_entry_of (map (agent_of self) rs) sts"
    by auto
  from Cons.prems obtain v where v: "map_of (agent_of self r) ''name'' = Some v"
    by (auto simp: hasattr_def)
  then have "agent_status (class_name r) (agent_of self r) =
               Inr (PDict [(''name'', v),
                           (''version'', getattr_default (agent_of self r) ''version'' (PStr ''unknown'')),
                           (''status'', PStr ''active'')])"
    by (simp add: agent_status_def getattr_def)
  moreover have "status_entry_of (agent_of self r)
                   (PDict [(''name'', v),
                           (''version'', getattr_default (agent_of self r) ''version'' (PStr ''unknown'')),
                           (''status'', PStr ''active'')])"
    using v by (simp add: status_entry_of_def getattr_default_def)
  ultimately show ?case using sts all by simp
qed

text \<open>
  Claim C9, as amended. For an engine whose agents and Coordinator each have a \<^verbatim>\<open>name\<close>,
  \<^verbatim>\<open>get_engine_status\<close> returns and does not raise. What it returns has the engine's name
  and version, the number of agents, one status entry for each agent of \<^verbatim>\<open>self.agents\<close>
  in their order, and one for the Coordinator; each entry has the collaborator's name,
  the value of its \<^verbatim>\<open>version\<close> attribute as it is, or \<^verbatim>\<open>unknown\<close> when it has no such
  attribute, and the status \<^verbatim>\<open>active\<close>. The call reads the engine and writes nothing: it
  is a function of the engine alone.
\<close>

theorem engine_status_entries:
  assumes agents_named: "list_all (\<lambda>r. hasattr (agent_of self r) ''name'') (agents self)"
    and coordinator_named: "hasattr (coordinator self) ''name''"
  shows "\<exists>sts cst.
           get_engine_status self =
             Inr [(''name'', PStr (name self)),
                  (''version'', PStr (version self)),
                  (''agents_count'', PInt (int (length (agents self)))),
                  (''agents_status'', PList sts),
                  (''coordinator_status'', cst)] \<and>
           list_all2 status_entry_of (map (agent_of self) (agents self)) sts \<and>
           status_entry_of (coordinator self) cst"
proof -
  obtain sts where sts: "agents_status self (agents self) = Inr sts"
    and all: "list_all2 status_entry_of (map (agent_of self) (agents self)) sts"
    using agents_status_entries[OF agents_named] by blast
  from coordinator_named obtain v where v: "map_of (coordinator self) ''name'' = Some v"
    by (auto simp: hasattr_def)
  let ?cst = "PDict [(''name'', v),
                     (''version'', getattr_default (coordinator self) ''version'' (PStr ''unknown'')),
                     (''status'', PStr ''active'')]"
  have c: "agent_status ''Coordinator'' (coordinator self) = Inr ?cst"
    using v by (simp add: agent_status_def getattr_def)
  have "status_entry_of (coordinator self) ?cst"
    using v by (simp add: status_entry_of_def getattr_default_def)
  with sts all c show ?thesis by (simp add: get_engine_status_def)
qed

text \<open>
  The engine that \<^verbatim>\<open>__init__\<close> builds from the sample collaborators: three agents with a
  version, and a Coordinator without one.
\<close>

theorem engine_status_entries_witness:
  "list_all (\<lambda>r. hasattr (agent_of sample_engine r) ''name'') (agents sample_engine) \<and>
   hasattr (coordinator sample_engine) ''name'' \<and>
   get_engine_status sample_engine =
     Inr [(''name'', PStr ''Swarm Decision Engine''),
          (''version'', PStr ''1.0.0''),
          (''agents_count'', PInt 3),
          (''agents_status'',
           PList [PDict [(''name'', PStr ''Priority Agent''), (''version'', PStr ''1.0.0''),
                         (''status'', PStr ''active'')],
                  PDict [(''name'', PStr ''Resource Agent''), (''version'', PStr ''1.0.0''),
                         (''status'', PStr ''active'')],
                  PDict [(''name'', PStr ''Risk Agent''), (''version'', PStr ''1.0.0''),
                         (''status'', PStr ''active'')]]),
          (''coordinator_status'',
           PDict [(''name'', PStr ''Coordinator''), (''version'', PStr ''unknown''),
                  (''status'', PStr ''active'')])]"
proof -
  have a: "list_all (\<lambda>r. hasattr (agent_of sample_engine r) ''name'') (agents sample_engine)"
    by (simp add: hasattr_def sample_defs)
  have c: "hasattr (coordinator sample_engine) ''name''"
    by (simp add: hasattr_def sample_defs)
  have "get_engine_status sample_engine =
     Inr [(''name'', PStr ''Swarm Decision Engine''),
          (''version'', PStr ''1.0.0''),
          (''agents_count'', PInt 3),
          (''agents_status'',
           PList [PDict [(''name'', PStr ''Priority Agent''), (''version'', PStr ''1.0.0''),
                         (''status'', PStr ''active'')],
                  PDict [(''name'', PStr ''Resource Agent''), (''version'', PStr ''1.0.0''),
                         (''status'', PStr ''active'')],
                  PDict [(''name'', PStr ''Risk Agent''), (''version'', PStr ''1.0.0''),
                         (''status'', PStr ''active'')]]),
          (''coordinator_status'',
           PDict [(''name'', PStr ''Coordinator''), (''version'', PStr ''unknown''),
                  (''status'', PStr ''active'')])]"
    using engine_status_entries[OF a c]
    by (simp add: get_engine_status_def agent_status_def getattr_def getattr_default_def sample_defs)
  with a c show ?thesis by simp
qed

text \<open>
  The claim as it was stated has the call never raise and every entry hold a version
  string or the sentinel. \<^verbatim>\<open>agent.name\<close> is read without a default (lines 164 and 171):
  here the risk agent has a version and no name, and the call raises \<^verbatim>\<open>AttributeError\<close>.
  \<^verbatim>\<open>getattr\<close> gives the sentinel only when the attribute is missing: a Coordinator whose
  \<^verbatim>\<open>version\<close> is \<^verbatim>\<open>None\<close> has \<^verbatim>\<open>None\<close> in its entry.
\<close>

theorem engine_status_raises_without_name:
  "get_engine_status (sample_engine\<lparr>risk_agent := [(''version'', PStr ''1.0.0'')]\<rparr>) =
     Inl (attribute_error ''RiskAgent'' ''name'') \<and>
   is_Exception (attribute_error ''RiskAgent'' ''name'') \<and>
   get_engine_status
     (sample_engine\<lparr>coordinator := [(''name'', PStr ''Coordinator''), (''version'', PNone)]\<rparr>) =
     Inr [(''name'', PStr ''Swarm Decision Engine''),
          (''version'', PStr ''1.0.0''),
          (''agents_count'', PInt 3),
          (''agents_status'',
           PList [PDict [(''name'', PStr ''Priority Agent''), (''version'', PStr ''1.0.0''),
                         (''status'', PStr ''active'')],
                  PDict [(''name'', PStr ''Resource Agent''), (''version'', PStr ''1.0.0''),
                         (''status'', PStr ''active'')],
                  PDict [(''name'', PStr ''Risk Agent''), (''version'', PStr ''1.0.0''),
                         (''status'', PStr ''active'')]]),
          (''coordinator_status'',
           PDict [(''name'', PStr ''Coordinator''), (''version'', PNone),
                  (''status'', PStr ''active'')])]"
  by (simp add: get_engine_status_def agent_status_def getattr_def getattr_default_def
        attribute_error_def sample_defs)

end
